theory Spec2Isabelle
  imports Main
begin

section \<open>The cluster of addresses (cluster.go)\<close>

text \<open>
  A \<^verbatim>\<open>*URI\<close> is a pointer: \<open>None\<close> is \<^verbatim>\<open>nil\<close>, \<open>Some u\<close> points to the
  address \<open>u\<close>. The type \<^verbatim>\<open>URI\<close> itself is declared outside the two files verified
  here, so it stays a type parameter \<open>'u\<close>.
\<close>

type_synonym 'u ptr = "'u option"

text \<open>
  \<^verbatim>\<open>type Cluster struct { hosts []*URI; nextIndex int }\<close>
\<close>

record 'u Cluster =
  hosts :: "'u ptr list"
  nextIndex :: int

text \<open>A run-time panic of the Go program: the only one these functions can raise.\<close>

datatype panic = IndexOutOfRange

text \<open>
  Go's \<^verbatim>\<open>%\<close> on \<^verbatim>\<open>int\<close> truncates towards zero, so the remainder has the sign of
  the dividend, whereas \<open>mod\<close> of HOL has the sign of the divisor.
\<close>

definition go_rem :: "int \<Rightarrow> int \<Rightarrow> int" where
  "go_rem a b = sgn a * (\<bar>a\<bar> mod \<bar>b\<bar>)"

text \<open>\<^verbatim>\<open>func NewCluster() *Cluster\<close>: no addresses, and the zero value of \<^verbatim>\<open>nextIndex\<close>.\<close>

definition NewCluster :: "'u Cluster" where
  "NewCluster = \<lparr>hosts = [], nextIndex = 0\<rparr>"

text \<open>\<^verbatim>\<open>c.hosts = append(c.hosts, address)\<close>\<close>

definition AddHost :: "'u Cluster \<Rightarrow> 'u ptr \<Rightarrow> 'u Cluster" where
  "AddHost c address = c\<lparr>hosts := hosts c @ [address]\<rparr>"

definition NewClusterWithHost :: "'u ptr \<Rightarrow> 'u Cluster" where
  "NewClusterWithHost host = AddHost NewCluster host"

text \<open>
  \<^verbatim>\<open>GetHost\<close> returns the selected pointer together with the cluster as the call leaves
  it. The slice read \<^verbatim>\<open>c.hosts[c.nextIndex%len(c.hosts)]\<close> is bounds-checked by Go, and
  the check is part of the model. In every state the program can reach,
  \<open>0 \<le> nextIndex < len(hosts)\<close>, so \<^verbatim>\<open>c.nextIndex + 1\<close> stays within \<^verbatim>\<open>int\<close> and is
  written without wrap-around.
\<close>

definition GetHost :: "'u Cluster \<Rightarrow> panic + ('u ptr \<times> 'u Cluster)" where
  "GetHost c =
     (if length (hosts c) = 0 then Inr (None, c)
      else
        let i = go_rem (nextIndex c) (int (length (hosts c))) in
        if 0 \<le> i \<and> i < int (length (hosts c))
        then Inr (hosts c ! nat i,
                  c\<lparr>nextIndex := go_rem (nextIndex c + 1) (int (length (hosts c)))\<rparr>)
        else Inl IndexOutOfRange)"

text \<open>\<^verbatim>\<open>func (c *Cluster) RemoveHost(address *URI) { // TODO: }\<close>: the body is empty.\<close>

definition RemoveHost :: "'u Cluster \<Rightarrow> 'u ptr \<Rightarrow> 'u Cluster" where
  "RemoveHost c address = c"

subsection \<open>Sequences of calls\<close>

text \<open>A fresh cluster to which the addresses \<open>hs\<close> are added one after the other.\<close>

definition populate :: "'u ptr list \<Rightarrow> 'u Cluster" where
  "populate hs = foldl AddHost NewCluster hs"

text \<open>
  \<open>n\<close> successive calls of \<^verbatim>\<open>GetHost\<close>, each on the cluster the previous one left: the
  pointers returned, in call order, and the final cluster. A panic ends the run.
\<close>

fun GetHost_times :: "nat \<Rightarrow> 'u Cluster \<Rightarrow> panic + ('u ptr list \<times> 'u Cluster)" where
  "GetHost_times 0 c = Inr ([], c)"
| "GetHost_times (Suc n) c =
     (case GetHost c of
        Inl p \<Rightarrow> Inl p
      | Inr (u, c') \<Rightarrow>
          (case GetHost_times n c' of
             Inl p \<Rightarrow> Inl p
           | Inr (us, c'') \<Rightarrow> Inr (u # us, c'')))"

section \<open>The client (client.go)\<close>

subsection \<open>Errors\<close>

text \<open>
  Modelled from the spec: the error values \<^verbatim>\<open>ErrorEmptyCluster\<close>, \<^verbatim>\<open>ErrorDatabaseExists\<close>,
  \<^verbatim>\<open>ErrorFrameExists\<close> and the constructor \<^verbatim>\<open>NewPilosaError\<close> are used by client.go and
  declared in a file that is not part of the sources at hand. The spec's taxonomy keeps
  the empty cluster, the two already-exists conditions and the server error carrying its
  text apart; the client tells them apart by comparing with \<^verbatim>\<open>==\<close>, so they are distinct
  constructors. \<open>ExternalError\<close> is an error that comes from outside the package (the
  HTTP transport, reading a body, a decoder), with its message.
\<close>

datatype error =
    ErrorEmptyCluster
  | ErrorDatabaseExists
  | ErrorFrameExists
  | PilosaError string
  | ExternalError string

subsection \<open>Value objects\<close>

text \<open>
  The structs of client.go, field by field. Where Go passes a \<^verbatim>\<open>*Database\<close>, a
  \<^verbatim>\<open>*Frame\<close> or a \<^verbatim>\<open>*QueryOptions\<close>, the model passes the value pointed to: the
  constructors of client.go never return a \<^verbatim>\<open>nil\<close> pointer without an error.
\<close>

record QueryOptions =
  GetProfiles :: bool

record DatabaseOptions =
  columnLabel :: string

record FrameOptions =
  rowLabel :: string

record Database =
  name :: string
  options :: DatabaseOptions

record Frame =
  name :: string
  database :: Database
  options :: FrameOptions

subsection \<open>The HTTP exchange\<close>

text \<open>
  The fields of \<^verbatim>\<open>http.Request\<close> that the client sets. \<open>Header\<close> maps a header name to
  its value; \<open>Body\<close> is the byte string the request carries (a \<^verbatim>\<open>nil\<close> slice is the
  empty string).
\<close>

record Request =
  Method :: string
  URL :: string
  Header :: "string \<rightharpoonup> string"
  Body :: string

text \<open>
  The fields of \<^verbatim>\<open>http.Response\<close> that the client reads. \<open>Body\<close> is what
  \<^verbatim>\<open>ioutil.ReadAll(response.Body)\<close> gives: an error, or all the bytes.
\<close>

record Response =
  StatusCode :: int
  Status :: string
  Body :: "string + string"

text \<open>
  What the client calls outside the two files: \<^verbatim>\<open>URI.GetNormalizedAddress\<close>, the error
  (if any) of \<^verbatim>\<open>http.NewRequest\<close> for a method and a URL, and \<^verbatim>\<open>http.Client.Do\<close>.
\<close>

record 'u Transport =
  GetNormalizedAddress :: "'u \<Rightarrow> string"
  NewRequest_error :: "string \<Rightarrow> string \<Rightarrow> string option"
  Do :: "Request \<Rightarrow> string + Response"

text \<open>\<^verbatim>\<open>type Client struct { cluster *Cluster }\<close>\<close>

record 'u Client =
  cluster :: "'u Cluster"

text \<open>
  The state a call runs in: the client, and \<open>sent\<close>, the requests handed to
  \<^verbatim>\<open>client.Do\<close> so far, oldest first. Every network exchange of the client adds one
  request to \<open>sent\<close>.
\<close>

record 'u State =
  client :: "'u Client"
  sent :: "Request list"

text \<open>\<^verbatim>\<open>%d\<close> of \<^verbatim>\<open>fmt.Sprintf\<close>: the decimal digits of an \<^verbatim>\<open>int\<close>, with a minus sign.\<close>

fun decimal :: "nat \<Rightarrow> string" where
  "decimal n =
     (if n < 10 then [''0123456789'' ! n]
      else decimal (n div 10) @ [''0123456789'' ! (n mod 10)])"

definition fmt_d :: "int \<Rightarrow> string" where
  "fmt_d i = (if i < 0 then ''-'' @ decimal (nat (- i)) else decimal (nat i))"

text \<open>
  The request as \<^verbatim>\<open>httpRequest\<close> hands it to \<^verbatim>\<open>client.Do\<close>: built by
  \<^verbatim>\<open>http.NewRequest(method, url, bytes.NewReader(data))\<close>, then both headers set.
\<close>

definition protobuf_request :: "string \<Rightarrow> string \<Rightarrow> string \<Rightarrow> Request" where
  "protobuf_request method url data =
     \<lparr>Method = method, URL = url,
      Header = [''Content-Type'' \<mapsto> ''application/x-protobuf'',
                ''Accept'' \<mapsto> ''application/x-protobuf''],
      Body = data\<rparr>"

text \<open>
  \<^verbatim>\<open>func (c *Client) httpRequest(method string, path string, data []byte,
  needsResponse bool) ([]byte, error)\<close>. The result is \<open>Inl err\<close> for \<^verbatim>\<open>(nil, err)\<close> and
  \<open>Inr buf\<close> for \<^verbatim>\<open>(buf, nil)\<close>, with the empty string for a \<^verbatim>\<open>nil\<close> slice; it comes
  with the state as the call leaves it. A panic of \<^verbatim>\<open>GetHost\<close> ends the call. The
  deferred \<^verbatim>\<open>response.Body.Close()\<close> changes nothing that the model keeps.
\<close>

definition httpRequest ::
  "'u Transport \<Rightarrow> string \<Rightarrow> string \<Rightarrow> string \<Rightarrow> bool \<Rightarrow> 'u State \<Rightarrow>
     panic + ((error + string) \<times> 'u State)" where
  \<open>httpRequest T method path data needsResponse st =
     (case GetHost (cluster (client st)) of
        Inl p \<Rightarrow> Inl p
      | Inr (addr, c') \<Rightarrow>
          let st1 = st\<lparr>client := (client st)\<lparr>cluster := c'\<rparr>\<rparr> in
          (case addr of
             None \<Rightarrow> Inr (Inl ErrorEmptyCluster, st1)
           | Some u \<Rightarrow>
               (case NewRequest_error T method (GetNormalizedAddress T u @ path) of
                  Some err \<Rightarrow> Inr (Inl (ExternalError err), st1)
                | None \<Rightarrow>
                    let request = protobuf_request method (GetNormalizedAddress T u @ path) data;
                        st2 = st1\<lparr>sent := sent st1 @ [request]\<rparr>
                    in
                    (case Do T request of
                       Inl err \<Rightarrow> Inr (Inl (ExternalError err), st2)
                     | Inr response \<Rightarrow>
                         if StatusCode response < 200 \<or> StatusCode response \<ge> 300 then
                           (case Response.Body response of
                              Inl err \<Rightarrow> Inr (Inl (ExternalError err), st2)
                            | Inr msg \<Rightarrow>
                                if msg = ''database already exists\<newline>'' then
                                  Inr (Inl ErrorDatabaseExists, st2)
                                else if msg = ''frame already exists\<newline>'' then
                                  Inr (Inl ErrorFrameExists, st2)
                                else
                                  Inr (Inl (PilosaError
                                         (''Server error ('' @ fmt_d (StatusCode response) @ '') ''
                                            @ Status response @ '': '' @ msg)), st2))
                         else if needsResponse then
                           (case Response.Body response of
                              Inl err \<Rightarrow> Inr (Inl (ExternalError err), st2)
                            | Inr buf \<Rightarrow> Inr (Inr buf, st2))
                         else Inr (Inr [], st2)))))\<close>

subsection \<open>Administrative calls\<close>

text \<open>
  The two \<^verbatim>\<open>fmt.Sprintf\<close> bodies; \<^verbatim>\<open>%s\<close> inserts the string as it is.
\<close>

definition databaseBody :: "Database \<Rightarrow> string" where
  \<open>databaseBody db =
     ''{"db": "'' @ Database.name db @ ''", "options": {"columnLabel": "''
       @ columnLabel (Database.options db) @ ''"}}''\<close>

definition frameBody :: "Frame \<Rightarrow> string" where
  \<open>frameBody frame =
     ''{"db": "'' @ Database.name (database frame) @ ''", "frame": "'' @ Frame.name frame
       @ ''", "options": {"rowLabel": "'' @ rowLabel (Frame.options frame) @ ''"}}''\<close>

text \<open>\<^verbatim>\<open>_, err := c.httpRequest(...); return err\<close>: \<open>None\<close> is the \<^verbatim>\<open>nil\<close> error.\<close>

definition createOrDeleteDatabase ::
  "'u Transport \<Rightarrow> string \<Rightarrow> Database \<Rightarrow> 'u State \<Rightarrow> panic + (error option \<times> 'u State)" where
  "createOrDeleteDatabase T method db st =
     (case httpRequest T method ''/db'' (databaseBody db) False st of
        Inl p \<Rightarrow> Inl p
      | Inr (Inl err, st') \<Rightarrow> Inr (Some err, st')
      | Inr (Inr _, st') \<Rightarrow> Inr (None, st'))"

definition createOrDeleteFrame ::
  "'u Transport \<Rightarrow> string \<Rightarrow> Frame \<Rightarrow> 'u State \<Rightarrow> panic + (error option \<times> 'u State)" where
  "createOrDeleteFrame T method frame st =
     (case httpRequest T method ''/frame'' (frameBody frame) False st of
        Inl p \<Rightarrow> Inl p
      | Inr (Inl err, st') \<Rightarrow> Inr (Some err, st')
      | Inr (Inr _, st') \<Rightarrow> Inr (None, st'))"

definition CreateDatabase ::
  "'u Transport \<Rightarrow> Database \<Rightarrow> 'u State \<Rightarrow> panic + (error option \<times> 'u State)" where
  "CreateDatabase T db st = createOrDeleteDatabase T ''POST'' db st"

definition CreateFrame ::
  "'u Transport \<Rightarrow> Frame \<Rightarrow> 'u State \<Rightarrow> panic + (error option \<times> 'u State)" where
  "CreateFrame T frame st = createOrDeleteFrame T ''POST'' frame st"

definition EnsureDatabaseExists ::
  "'u Transport \<Rightarrow> Database \<Rightarrow> 'u State \<Rightarrow> panic + (error option \<times> 'u State)" where
  "EnsureDatabaseExists T db st =
     (case CreateDatabase T db st of
        Inl p \<Rightarrow> Inl p
      | Inr (err, st') \<Rightarrow>
          if err = Some ErrorDatabaseExists then Inr (None, st') else Inr (err, st'))"

definition EnsureFrameExists ::
  "'u Transport \<Rightarrow> Frame \<Rightarrow> 'u State \<Rightarrow> panic + (error option \<times> 'u State)" where
  "EnsureFrameExists T frame st =
     (case CreateFrame T frame st of
        Inl p \<Rightarrow> Inl p
      | Inr (err, st') \<Rightarrow>
          if err = Some ErrorFrameExists then Inr (None, st') else Inr (err, st'))"

definition DeleteDatabase ::
  "'u Transport \<Rightarrow> Database \<Rightarrow> 'u State \<Rightarrow> panic + (error option \<times> 'u State)" where
  "DeleteDatabase T db st = createOrDeleteDatabase T ''DELETE'' db st"

definition DeleteFrame ::
  "'u Transport \<Rightarrow> Frame \<Rightarrow> 'u State \<Rightarrow> panic + (error option \<times> 'u State)" where
  "DeleteFrame T frame st = createOrDeleteFrame T ''DELETE'' frame st"

subsection \<open>Queries and the schema\<close>

text \<open>\<^verbatim>\<open>internal.QueryRequest\<close>, as \<^verbatim>\<open>makeRequestData\<close> fills it.\<close>

record QueryRequest =
  DB :: string
  Query :: string
  Profiles :: bool

text \<open>
  The encoders and decoders the client calls outside the two files: the protobuf
  \<^verbatim>\<open>Marshal\<close> (whose error the client drops) and \<^verbatim>\<open>Unmarshal\<close> of package
  \<^verbatim>\<open>internal\<close>, \<^verbatim>\<open>newQueryResponseFromInternal\<close>, and the JSON decoder of the schema.
  \<open>'i\<close> is \<^verbatim>\<open>internal.QueryResponse\<close>, \<open>'q\<close> is \<^verbatim>\<open>QueryResponse\<close>, \<open>'s\<close> is \<^verbatim>\<open>Schema\<close>.
\<close>

record ('i, 'q, 's) Codec =
  Marshal :: "QueryRequest \<Rightarrow> string"
  Unmarshal :: "string \<Rightarrow> string + 'i"
  newQueryResponseFromInternal :: "'i \<Rightarrow> error + 'q"
  Decode :: "string \<Rightarrow> string + 's"

definition makeRequestData :: "('i, 'q, 's) Codec \<Rightarrow> string \<Rightarrow> string \<Rightarrow> QueryOptions \<Rightarrow> string" where
  "makeRequestData K databaseName query opts =
     Marshal K \<lparr>DB = databaseName, Query = query, Profiles = GetProfiles opts\<rparr>"

definition QueryWithOptions ::
  "'u Transport \<Rightarrow> ('i, 'q, 's) Codec \<Rightarrow> QueryOptions \<Rightarrow> Database \<Rightarrow> string \<Rightarrow> 'u State \<Rightarrow>
     panic + ((error + 'q) \<times> 'u State)" where
  "QueryWithOptions T K opts db query st =
     (let data = makeRequestData K (Database.name db) query opts in
      case httpRequest T ''POST'' ''/query'' data True st of
        Inl p \<Rightarrow> Inl p
      | Inr (Inl err, st') \<Rightarrow> Inr (Inl err, st')
      | Inr (Inr buf, st') \<Rightarrow>
          (case Unmarshal K buf of
             Inl err \<Rightarrow> Inr (Inl (ExternalError err), st')
           | Inr iqr \<Rightarrow> Inr (newQueryResponseFromInternal K iqr, st')))"

text \<open>
  \<^verbatim>\<open>func (c *Client) Query\<close>, which passes \<^verbatim>\<open>&QueryOptions{}\<close>, the zero value. The
  name \<open>Query\<close> is taken by the field of \<open>QueryRequest\<close>, hence the suffix.
\<close>

definition Query_default ::
  "'u Transport \<Rightarrow> ('i, 'q, 's) Codec \<Rightarrow> Database \<Rightarrow> string \<Rightarrow> 'u State \<Rightarrow>
     panic + ((error + 'q) \<times> 'u State)" where
  "Query_default T K db query st =
     QueryWithOptions T K \<lparr>GetProfiles = False\<rparr> db query st"

definition Schema ::
  "'u Transport \<Rightarrow> ('i, 'q, 's) Codec \<Rightarrow> 'u State \<Rightarrow> panic + ((error + 's) \<times> 'u State)" where
  "Schema T K st =
     (case httpRequest T ''GET'' ''/schema'' [] True st of
        Inl p \<Rightarrow> Inl p
      | Inr (Inl err, st') \<Rightarrow> Inr (Inl err, st')
      | Inr (Inr response, st') \<Rightarrow>
          (case Decode K response of
             Inl err \<Rightarrow> Inr (Inl (ExternalError err), st')
           | Inr schema \<Rightarrow> Inr (Inr schema, st')))"

subsection \<open>A transport for examples\<close>

text \<open>
  A server that answers every request with the same status line and body. Addresses are
  strings already in normal form, and \<^verbatim>\<open>http.NewRequest\<close> accepts every method and URL.
\<close>

definition answering :: "int \<Rightarrow> string \<Rightarrow> string \<Rightarrow> string Transport" where
  "answering code status text =
     \<lparr>GetNormalizedAddress = (\<lambda>u. u),
      NewRequest_error = (\<lambda>method url. None),
      Do = (\<lambda>request. Inr \<lparr>StatusCode = code, Status = status, Body = Inr text\<rparr>)\<rparr>"

text \<open>A client whose cluster holds the one address \<open>host\<close>, before any exchange.\<close>

definition client_of :: "string \<Rightarrow> string State" where
  "client_of host = \<lparr>client = \<lparr>cluster = NewClusterWithHost (Some host)\<rparr>, sent = []\<rparr>"

text \<open>
  A codec for examples: payloads are text, the request is encoded as its query text
  and every decoder hands the bytes on as they are.
\<close>

definition text_codec :: "(string, string, string) Codec" where
  "text_codec =
     \<lparr>Marshal = (\<lambda>r. Query r), Unmarshal = (\<lambda>buf. Inr buf),
      newQueryResponseFromInternal = (\<lambda>iqr. Inr iqr), Decode = (\<lambda>buf. Inr buf)\<rparr>"

subsection \<open>Vocabulary of the properties\<close>

text \<open>
  The requests a call has handed to the transport: those in \<open>sent\<close> after the call
  that were not there before it.
\<close>

definition outgoing :: "'u State \<Rightarrow> 'u State \<Rightarrow> Request list" where
  "outgoing st st' = drop (length (sent st)) (sent st')"

text \<open>Both headers name the protobuf media type.\<close>

definition protobuf_headers :: "Request \<Rightarrow> bool" where
  "protobuf_headers req =
     (Header req ''Content-Type'' = Some ''application/x-protobuf'' \<and>
      Header req ''Accept'' = Some ''application/x-protobuf'')"


section \<open>Properties of the cluster\<close>

lemma go_rem_nonneg: "0 \<le> a \<Longrightarrow> 0 < b \<Longrightarrow> go_rem a b = a mod b"
  by (cases "a = 0") (simp_all add: go_rem_def)

lemma hosts_foldl_AddHost: "hosts (foldl AddHost c hs) = hosts c @ hs"
  by (induction hs arbitrary: c) (simp_all add: AddHost_def)

lemma nextIndex_foldl_AddHost: "nextIndex (foldl AddHost c hs) = nextIndex c"
  by (induction hs arbitrary: c) (simp_all add: AddHost_def)

lemma populate_eq: "populate hs = \<lparr>hosts = hs, nextIndex = 0\<rparr>"
proof -
  have "hosts (populate hs :: 'a Cluster) = hs"
    by (simp add: populate_def hosts_foldl_AddHost NewCluster_def)
  moreover have "nextIndex (populate hs :: 'a Cluster) = 0"
    by (simp add: populate_def nextIndex_foldl_AddHost NewCluster_def)
  ultimately show ?thesis by simp
qed

lemma GetHost_in_range:
  assumes "i < length hs"
  shows "GetHost \<lparr>hosts = hs, nextIndex = int i\<rparr> =
           Inr (hs ! i, \<lparr>hosts = hs, nextIndex = int (Suc i mod length hs)\<rparr>)"
proof -
  from assms have ne: "hs \<noteq> []" by (cases hs) simp_all
  then have pos: "0 < int (length hs)" by simp
  have r1: "go_rem (int i) (int (length hs)) = int i"
    using assms by (simp add: go_rem_nonneg [OF _ pos])
  have r2: "go_rem (int i + 1) (int (length hs)) = int (Suc i mod length hs)"
    by (simp add: go_rem_nonneg [OF _ pos] zmod_int add.commute)
  from assms ne show ?thesis
    by (simp add: GetHost_def Let_def r1 r2)
qed

lemma rotation_shift:
  "map (\<lambda>k. hs ! ((Suc i mod length hs + k) mod length hs)) [0..<n] =
   map (\<lambda>k. hs ! ((i + k) mod length hs)) [Suc 0..<Suc n]"
proof -
  have "map (\<lambda>k. hs ! ((i + k) mod length hs)) [Suc 0..<Suc n] =
        map ((\<lambda>k. hs ! ((i + k) mod length hs)) \<circ> Suc) [0..<n]"
    by (simp only: map_map [symmetric] map_Suc_upt)
  also have "\<dots> = map (\<lambda>k. hs ! ((Suc i mod length hs + k) mod length hs)) [0..<n]"
    by (simp add: comp_def mod_add_left_eq)
  finally show ?thesis by simp
qed

lemma GetHost_times_rotation:
  assumes "i < length hs"
  shows "GetHost_times n \<lparr>hosts = hs, nextIndex = int i\<rparr> =
           Inr (map (\<lambda>k. hs ! ((i + k) mod length hs)) [0..<n],
                \<lparr>hosts = hs, nextIndex = int ((i + n) mod length hs)\<rparr>)"
  using assms
proof (induction n arbitrary: i)
  case 0
  then show ?case by simp
next
  case (Suc n)
  from Suc.prems have "0 < length hs" by arith
  then have lt: "Suc i mod length hs < length hs" by (rule mod_less_divisor)
  have idx: "(Suc i mod length hs + n) mod length hs = (i + Suc n) mod length hs"
    by (simp add: mod_add_left_eq)
  have "[0..<Suc n] = 0 # [Suc 0..<Suc n]"
    by (simp add: upt_conv_Cons del: upt_Suc)
  then have split: "map (\<lambda>k. hs ! ((i + k) mod length hs)) [0..<Suc n] =
      hs ! i # map (\<lambda>k. hs ! ((i + k) mod length hs)) [Suc 0..<Suc n]"
    using Suc.prems by simp
  show ?case
    by (simp only: GetHost_times.simps GetHost_in_range [OF Suc.prems] Suc.IH [OF lt]
        sum.case prod.case rotation_shift idx split)
qed

lemma rotation_twice:
  assumes "hs \<noteq> []"
  shows "map (\<lambda>k. hs ! ((0 + k) mod length hs)) [0..<2 * length hs] = hs @ hs"
proof -
  let ?N = "length hs"
  have a: "[0..<2 * ?N] = [0..<?N] @ map (\<lambda>i. i + ?N) [0..<?N]"
    by (simp only: map_add_upt mult_2 upt_add_eq_append [OF le0] add_0)
  have b: "map (\<lambda>k. hs ! (k mod ?N)) [0..<?N] = hs"
    by (rule nth_equalityI) simp_all
  have c: "map (\<lambda>k. hs ! (k mod ?N)) (map (\<lambda>i. i + ?N) [0..<?N]) = hs"
    by (rule nth_equalityI) simp_all
  show ?thesis
    by (simp only: a map_append b c add_0)
qed

lemma GetHost_valid:
  assumes "0 \<le> nextIndex c" and "nextIndex c < int (length (hosts c))"
  shows "GetHost c =
           Inr (hosts c ! nat (nextIndex c),
                c\<lparr>nextIndex := (nextIndex c + 1) mod int (length (hosts c))\<rparr>)"
proof -
  from assms have pos: "0 < int (length (hosts c))" by linarith
  have r1: "go_rem (nextIndex c) (int (length (hosts c))) = nextIndex c"
    using assms by (simp add: go_rem_nonneg [OF _ pos])
  have r2: "go_rem (nextIndex c + 1) (int (length (hosts c))) =
            (nextIndex c + 1) mod int (length (hosts c))"
    using assms by (simp add: go_rem_nonneg [OF _ pos])
  from assms pos show ?thesis
    by (simp add: GetHost_def Let_def r1 r2)
qed

subsection \<open>Round robin\<close>

text \<open>
  C1: a fresh cluster populated with the endpoints \<open>hs\<close> (at least one), with
  nothing but \<^verbatim>\<open>GetHost\<close> called on it afterwards: the calls number \<open>1\<close> to \<open>n\<close> return,
  in order, \<open>hs ! ((k - 1) mod length hs)\<close> for \<open>k = 1, \<dots>, n\<close>, and leave the cursor at
  \<open>n mod length hs\<close>; twice as many calls as there are endpoints return the list of
  endpoints twice over, in insertion order, and leave the cluster as it was.
\<close>

theorem GetHost_round_robin:
  assumes "hs \<noteq> []"
  shows "GetHost_times n (populate hs) =
           Inr (map (\<lambda>k. hs ! ((k - 1) mod length hs)) [1..<Suc n],
                \<lparr>hosts = hs, nextIndex = int (n mod length hs)\<rparr>) \<and>
         GetHost_times (2 * length hs) (populate hs) = Inr (hs @ hs, populate hs)"
proof
  from assms have pos: "0 < length hs" by simp
  have run: "GetHost_times m \<lparr>hosts = hs, nextIndex = 0\<rparr> =
      Inr (map (\<lambda>k. hs ! ((0 + k) mod length hs)) [0..<m],
           \<lparr>hosts = hs, nextIndex = int ((0 + m) mod length hs)\<rparr>)" for m
    using GetHost_times_rotation [OF pos, of m] by (simp only: of_nat_0)
  have shift: "map (\<lambda>k. hs ! ((k - 1) mod length hs)) [1..<Suc n] =
               map (\<lambda>k. hs ! ((0 + k) mod length hs)) [0..<n]"
    by (rule nth_equalityI) (simp_all del: upt_Suc add: nth_upt)
  show "GetHost_times n (populate hs) =
           Inr (map (\<lambda>k. hs ! ((k - 1) mod length hs)) [1..<Suc n],
                \<lparr>hosts = hs, nextIndex = int (n mod length hs)\<rparr>)"
    by (simp only: populate_eq run shift add_0)
  show "GetHost_times (2 * length hs) (populate hs) = Inr (hs @ hs, populate hs)"
    by (simp only: populate_eq run rotation_twice [OF assms]) simp
qed

theorem GetHost_round_robin_witness:
  "GetHost_times 3 (populate [Some ''a'', Some ''b'']) =
     Inr ([Some ''a'', Some ''b'', Some ''a''], \<lparr>hosts = [Some ''a'', Some ''b''], nextIndex = 1\<rparr>) \<and>
   GetHost_times 4 (populate [Some ''a'', Some ''b'']) =
     Inr ([Some ''a'', Some ''b'', Some ''a'', Some ''b''], populate [Some ''a'', Some ''b''])"
proof -
  have ne: "[Some ''a'', Some ''b''] \<noteq> []" by simp
  have e: "map (\<lambda>k. [Some ''a'', Some ''b''] ! ((k - 1) mod length [Some ''a'', Some ''b'']))
              [1..<Suc 3] = [Some ''a'', Some ''b'', Some ''a'']"
    by code_simp
  have f: "int (3 mod length [Some ''a'', Some ''b'']) = 1" by code_simp
  show ?thesis
    using GetHost_round_robin [OF ne, of 3] unfolding e f by simp
qed

text \<open>
  C8: on a cluster with no hosts \<^verbatim>\<open>GetHost\<close> returns \<^verbatim>\<open>nil\<close>, whatever the value of
  the cursor: it does not panic, reads no element of the slice and leaves the cluster
  unchanged.
\<close>

theorem GetHost_empty:
  "hosts c = [] \<Longrightarrow> GetHost c = Inr (None, c)"
  by (simp add: GetHost_def)

theorem GetHost_empty_witness:
  "hosts \<lparr>hosts = ([] :: string ptr list), nextIndex = - 7\<rparr> = [] \<and>
   GetHost \<lparr>hosts = ([] :: string ptr list), nextIndex = - 7\<rparr> =
     Inr (None, \<lparr>hosts = [], nextIndex = - 7\<rparr>)"
  using GetHost_empty [of "\<lparr>hosts = ([] :: string ptr list), nextIndex = - 7\<rparr>"] by simp

text \<open>
  C10: \<^verbatim>\<open>AddHost\<close> appends the endpoint at the end of the sequence and leaves the
  cursor as it is, in every state, and \<^verbatim>\<open>RemoveHost\<close> changes neither the sequence nor the
  cursor. Where the cursor is an index of the sequence, the \<^verbatim>\<open>GetHost\<close> that follows an
  \<^verbatim>\<open>AddHost\<close> returns the endpoint it would have returned without it, and the new
  endpoint takes its turn after the last of the old ones.
\<close>

theorem AddHost_keeps_cursor:
  "hosts (AddHost c a) = hosts c @ [a] \<and>
   nextIndex (AddHost c a) = nextIndex c \<and>
   RemoveHost c a = c \<and>
   (0 \<le> nextIndex c \<and> nextIndex c < int (length (hosts c)) \<longrightarrow>
      GetHost c =
        Inr (hosts c ! nat (nextIndex c),
             c\<lparr>nextIndex := (nextIndex c + 1) mod int (length (hosts c))\<rparr>) \<and>
      GetHost (AddHost c a) =
        Inr (hosts c ! nat (nextIndex c),
             (AddHost c a)\<lparr>nextIndex := (nextIndex c + 1) mod (int (length (hosts c)) + 1)\<rparr>))"
proof (intro conjI impI)
  show h: "hosts (AddHost c a) = hosts c @ [a]" by (simp add: AddHost_def)
  show n: "nextIndex (AddHost c a) = nextIndex c" by (simp add: AddHost_def)
  show "RemoveHost c a = c" by (simp add: RemoveHost_def)
  assume r: "0 \<le> nextIndex c \<and> nextIndex c < int (length (hosts c))"
  then show "GetHost c =
        Inr (hosts c ! nat (nextIndex c),
             c\<lparr>nextIndex := (nextIndex c + 1) mod int (length (hosts c))\<rparr>)"
    by (simp add: GetHost_valid)
  from r have lt: "nat (nextIndex c) < length (hosts c)" by linarith
  have len: "int (length (hosts (AddHost c a))) = int (length (hosts c)) + 1"
    by (simp add: h)
  have nth: "hosts (AddHost c a) ! nat (nextIndex c) = hosts c ! nat (nextIndex c)"
    using lt by (simp add: h nth_append)
  have "GetHost (AddHost c a) =
        Inr (hosts (AddHost c a) ! nat (nextIndex (AddHost c a)),
             (AddHost c a)\<lparr>nextIndex :=
                (nextIndex (AddHost c a) + 1) mod int (length (hosts (AddHost c a)))\<rparr>)"
    using r by (intro GetHost_valid) (simp_all only: n len, simp_all)
  then show "GetHost (AddHost c a) =
        Inr (hosts c ! nat (nextIndex c),
             (AddHost c a)\<lparr>nextIndex := (nextIndex c + 1) mod (int (length (hosts c)) + 1)\<rparr>)"
    by (simp only: n len nth)
qed

theorem AddHost_keeps_cursor_witness:
  "GetHost \<lparr>hosts = [Some ''a'', Some ''b''], nextIndex = 1\<rparr> =
     Inr (Some ''b'', \<lparr>hosts = [Some ''a'', Some ''b''], nextIndex = 0\<rparr>) \<and>
   GetHost (AddHost \<lparr>hosts = [Some ''a'', Some ''b''], nextIndex = 1\<rparr> (Some ''c'')) =
     Inr (Some ''b'', \<lparr>hosts = [Some ''a'', Some ''b'', Some ''c''], nextIndex = 2\<rparr>)"
  using AddHost_keeps_cursor [of "\<lparr>hosts = [Some ''a'', Some ''b''], nextIndex = 1\<rparr>" "Some ''c''"]
  by (simp add: AddHost_def)

text \<open>
  C2: \<^verbatim>\<open>RemoveHost\<close> is documented as removing an address and has an empty body.
  On the cluster of \<open>a\<close> and \<open>b\<close> with \<open>a\<close> next up, removing \<open>a\<close> leaves both
  hosts in place and the next \<^verbatim>\<open>GetHost\<close> returns \<open>a\<close> itself, where the claim has it
  return \<open>b\<close>; on the cluster of \<open>a\<close> alone, \<^verbatim>\<open>GetHost\<close> after the removal still returns
  \<open>a\<close>, where the claim has it return \<^verbatim>\<open>nil\<close>.
\<close>

theorem RemoveHost_leaves_endpoint_in_rotation:
  "hosts (RemoveHost (populate [Some ''a'', Some ''b'']) (Some ''a'')) = [Some ''a'', Some ''b''] \<and>
   GetHost (RemoveHost (populate [Some ''a'', Some ''b'']) (Some ''a'')) =
     Inr (Some ''a'', \<lparr>hosts = [Some ''a'', Some ''b''], nextIndex = 1\<rparr>) \<and>
   GetHost (RemoveHost (populate [Some ''a'']) (Some ''a'')) =
     Inr (Some ''a'', \<lparr>hosts = [Some ''a''], nextIndex = 0\<rparr>)"
  by (simp add: RemoveHost_def populate_def NewCluster_def AddHost_def GetHost_def go_rem_def)

section \<open>Properties of the client\<close>

lemma httpRequest_empty:
  assumes "hosts (cluster (client st)) = []"
  shows "httpRequest T method path data needsResponse st = Inr (Inl ErrorEmptyCluster, st)"
  using assms by (simp add: httpRequest_def GetHost_def)

lemma httpRequest_exchange:
  assumes "GetHost (cluster (client st)) = Inr (Some u, c')"
    and "NewRequest_error T method (GetNormalizedAddress T u @ path) = None"
    and "Do T (protobuf_request method (GetNormalizedAddress T u @ path) data) = Inr response"
  shows "httpRequest T method path data needsResponse st =
    (let st2 = st\<lparr>client := (client st)\<lparr>cluster := c'\<rparr>,
                   sent := sent st @ [protobuf_request method (GetNormalizedAddress T u @ path) data]\<rparr>
     in
     if StatusCode response < 200 \<or> StatusCode response \<ge> 300 then
       (case Response.Body response of
          Inl err \<Rightarrow> Inr (Inl (ExternalError err), st2)
        | Inr msg \<Rightarrow>
            if msg = ''database already exists\<newline>'' then Inr (Inl ErrorDatabaseExists, st2)
            else if msg = ''frame already exists\<newline>'' then Inr (Inl ErrorFrameExists, st2)
            else Inr (Inl (PilosaError
                   (''Server error ('' @ fmt_d (StatusCode response) @ '') ''
                      @ Status response @ '': '' @ msg)), st2))
     else if needsResponse then
       (case Response.Body response of
          Inl err \<Rightarrow> Inr (Inl (ExternalError err), st2)
        | Inr buf \<Rightarrow> Inr (Inr buf, st2))
     else Inr (Inr [], st2))"
  using assms by (simp add: httpRequest_def Let_def)

lemma httpRequest_effect:
  assumes "httpRequest T method path data needsResponse st = Inr (r, st')"
  shows "(\<exists>addr. GetHost (cluster (client st)) = Inr (addr, cluster (client st'))) \<and>
         (sent st' = sent st \<or>
          (\<exists>u. GetHost (cluster (client st)) = Inr (Some u, cluster (client st')) \<and>
               sent st' = sent st @ [protobuf_request method (GetNormalizedAddress T u @ path) data]))"
  using assms
  by (auto simp: httpRequest_def Let_def split: sum.splits option.splits if_splits prod.splits)

lemma GetHost_client_of:
  "GetHost (cluster (client (client_of h))) = Inr (Some h, \<lparr>hosts = [Some h], nextIndex = 0\<rparr>)"
  by (simp add: client_of_def NewClusterWithHost_def NewCluster_def AddHost_def GetHost_def go_rem_def)

lemma createOrDeleteDatabase_exchange:
  assumes "httpRequest T method ''/db'' (databaseBody db) False st = Inr (Inl e, st')"
  shows "createOrDeleteDatabase T method db st = Inr (Some e, st')"
  using assms by (simp add: createOrDeleteDatabase_def)

lemma createOrDeleteFrame_exchange:
  assumes "httpRequest T method ''/frame'' (frameBody frame) False st = Inr (Inl e, st')"
  shows "createOrDeleteFrame T method frame st = Inr (Some e, st')"
  using assms by (simp add: createOrDeleteFrame_def)

lemma httpRequest_non2xx:
  assumes "GetHost (cluster (client st)) = Inr (Some u, c')"
    and "NewRequest_error T method (GetNormalizedAddress T u @ path) = None"
    and "Do T (protobuf_request method (GetNormalizedAddress T u @ path) data) = Inr response"
    and "StatusCode response < 200 \<or> 300 \<le> StatusCode response"
    and "Response.Body response = Inr msg"
  shows "httpRequest T method path data needsResponse st =
    Inr (Inl (if msg = ''database already exists\<newline>'' then ErrorDatabaseExists
              else if msg = ''frame already exists\<newline>'' then ErrorFrameExists
              else PilosaError (''Server error ('' @ fmt_d (StatusCode response) @ '') ''
                      @ Status response @ '': '' @ msg)),
         st\<lparr>client := (client st)\<lparr>cluster := c'\<rparr>,
            sent := sent st @ [protobuf_request method (GetNormalizedAddress T u @ path) data]\<rparr>)"
  using assms(4,5)
  by (simp add: httpRequest_exchange [OF assms(1,2,3)] Let_def)

lemma CreateFrame_answering:
  "CreateFrame (answering code status text) frame (client_of h) =
     (let st2 = \<lparr>client = \<lparr>cluster = \<lparr>hosts = [Some h], nextIndex = 0\<rparr>\<rparr>,
                 sent = [protobuf_request ''POST'' (h @ ''/frame'') (frameBody frame)]\<rparr>
      in if code < 200 \<or> 300 \<le> code then
           (if text = ''database already exists\<newline>'' then Inr (Some ErrorDatabaseExists, st2)
            else if text = ''frame already exists\<newline>'' then Inr (Some ErrorFrameExists, st2)
            else Inr (Some (PilosaError (''Server error ('' @ fmt_d code @ '') '' @ status @ '': '' @ text)), st2))
         else Inr (None, st2))"
  by (simp add: CreateFrame_def createOrDeleteFrame_def httpRequest_def GetHost_client_of Let_def
      answering_def, simp add: client_of_def)

lemma CreateDatabase_answering:
  "CreateDatabase (answering code status text) db (client_of h) =
     (let st2 = \<lparr>client = \<lparr>cluster = \<lparr>hosts = [Some h], nextIndex = 0\<rparr>\<rparr>,
                 sent = [protobuf_request ''POST'' (h @ ''/db'') (databaseBody db)]\<rparr>
      in if code < 200 \<or> 300 \<le> code then
           (if text = ''database already exists\<newline>'' then Inr (Some ErrorDatabaseExists, st2)
            else if text = ''frame already exists\<newline>'' then Inr (Some ErrorFrameExists, st2)
            else Inr (Some (PilosaError (''Server error ('' @ fmt_d code @ '') '' @ status @ '': '' @ text)), st2))
         else Inr (None, st2))"
  by (simp add: CreateDatabase_def createOrDeleteDatabase_def httpRequest_def GetHost_client_of Let_def
      answering_def, simp add: client_of_def)

lemma httpRequest_outgoing:
  assumes "httpRequest T method path data needsResponse st = Inr (r, st')"
  shows "sent st' = sent st @ outgoing st st' \<and>
         (\<forall>req\<in>set (outgoing st st'). protobuf_headers req \<and> Request.Body req = data)"
proof -
  from httpRequest_effect [OF assms]
  consider "sent st' = sent st"
    | u where "sent st' = sent st @ [protobuf_request method (GetNormalizedAddress T u @ path) data]"
    by blast
  then show ?thesis
  proof cases
    case 1
    then show ?thesis by (simp add: outgoing_def)
  next
    case 2
    then show ?thesis
      by (simp add: outgoing_def protobuf_headers_def protobuf_request_def)
  qed
qed

lemma createOrDeleteDatabase_via:
  assumes "createOrDeleteDatabase T method db st = Inr (e, st')"
  shows "\<exists>r. httpRequest T method ''/db'' (databaseBody db) False st = Inr (r, st')"
  using assms
  by (auto simp: createOrDeleteDatabase_def split: sum.splits prod.splits)

lemma createOrDeleteFrame_via:
  assumes "createOrDeleteFrame T method frame st = Inr (e, st')"
  shows "\<exists>r. httpRequest T method ''/frame'' (frameBody frame) False st = Inr (r, st')"
  using assms
  by (auto simp: createOrDeleteFrame_def split: sum.splits prod.splits)

lemma QueryWithOptions_via:
  assumes "QueryWithOptions T K opts db query st = Inr (q, st')"
  shows "\<exists>r. httpRequest T ''POST'' ''/query'' (makeRequestData K (Database.name db) query opts)
                True st = Inr (r, st')"
  using assms
  by (auto simp: QueryWithOptions_def Let_def split: sum.splits prod.splits)

lemma Schema_via:
  assumes "Schema T K st = Inr (s, st')"
  shows "\<exists>r. httpRequest T ''GET'' ''/schema'' [] True st = Inr (r, st')"
  using assms
  by (auto simp: Schema_def split: sum.splits prod.splits)

lemma httpRequest_selects_once:
  assumes "httpRequest T method path data needsResponse st = Inr (r, st')"
  shows "\<exists>addr. GetHost (cluster (client st)) = Inr (addr, cluster (client st')) \<and>
           (case addr of
              None \<Rightarrow> r = Inl ErrorEmptyCluster \<and> sent st' = sent st
            | Some u \<Rightarrow>
                sent st' = sent st \<or>
                sent st' = sent st @ [protobuf_request method (GetNormalizedAddress T u @ path) data])"
  using assms
  by (auto simp: httpRequest_def Let_def split: sum.splits option.splits if_splits prod.splits)

lemma httpRequest_sends:
  assumes "GetHost (cluster (client st)) = Inr (Some u, c')"
    and "NewRequest_error T method (GetNormalizedAddress T u @ path) = None"
  shows "\<exists>r st'. httpRequest T method path data needsResponse st = Inr (r, st') \<and>
           sent st' = sent st @ [protobuf_request method (GetNormalizedAddress T u @ path) data]"
  using assms
  by (auto simp: httpRequest_def Let_def split: sum.splits)

subsection \<open>Classification of server errors\<close>

text \<open>
  C3: (as amended) when the exchange of a call returns a status outside
  \<open>[200, 300)\<close> and its body is read as \<open>msg\<close>, the call returns \<^verbatim>\<open>ErrorDatabaseExists\<close> if
  \<open>msg\<close> is exactly \<^verbatim>\<open>"database already exists\n"\<close>, \<^verbatim>\<open>ErrorFrameExists\<close> if it is exactly
  \<^verbatim>\<open>"frame already exists\n"\<close>, and for every other body the generic error whose message
  is \<^verbatim>\<open>Server error (<status code>) <status text>: <body>\<close>. This holds of \<^verbatim>\<open>httpRequest\<close>
  for every method, path and payload, and so of \<^verbatim>\<open>CreateDatabase\<close> and \<^verbatim>\<open>CreateFrame\<close>.
\<close>

theorem create_server_error_classification:
  assumes "GetHost (cluster (client st)) = Inr (Some u, c')"
    and "NewRequest_error T method (GetNormalizedAddress T u @ path) = None"
    and "Do T (protobuf_request method (GetNormalizedAddress T u @ path) data) = Inr response"
    and "StatusCode response < 200 \<or> 300 \<le> StatusCode response"
    and "Response.Body response = Inr msg"
  shows
    "(let e = (if msg = ''database already exists\<newline>'' then ErrorDatabaseExists
               else if msg = ''frame already exists\<newline>'' then ErrorFrameExists
               else PilosaError (''Server error ('' @ fmt_d (StatusCode response) @ '') ''
                       @ Status response @ '': '' @ msg));
          st2 = st\<lparr>client := (client st)\<lparr>cluster := c'\<rparr>,
                   sent := sent st @ [protobuf_request method (GetNormalizedAddress T u @ path) data]\<rparr>
      in httpRequest T method path data needsResponse st = Inr (Inl e, st2) \<and>
         (method = ''POST'' \<and> path = ''/db'' \<and> data = databaseBody db \<longrightarrow>
            CreateDatabase T db st = Inr (Some e, st2)) \<and>
         (method = ''POST'' \<and> path = ''/frame'' \<and> data = frameBody frame \<longrightarrow>
            CreateFrame T frame st = Inr (Some e, st2)))"
proof -
  note h = httpRequest_non2xx [OF assms]
  show ?thesis
    unfolding Let_def
  proof (intro conjI impI)
    show "httpRequest T method path data needsResponse st =
      Inr (Inl (if msg = ''database already exists\<newline>'' then ErrorDatabaseExists
              else if msg = ''frame already exists\<newline>'' then ErrorFrameExists
              else PilosaError (''Server error ('' @ fmt_d (StatusCode response) @ '') ''
                      @ Status response @ '': '' @ msg)),
         st\<lparr>client := (client st)\<lparr>cluster := c'\<rparr>,
            sent := sent st @ [protobuf_request method (GetNormalizedAddress T u @ path) data]\<rparr>)"
      by (rule h)
  next
    assume a: "method = ''POST'' \<and> path = ''/db'' \<and> data = databaseBody db"
    show "CreateDatabase T db st =
      Inr (Some (if msg = ''database already exists\<newline>'' then ErrorDatabaseExists
              else if msg = ''frame already exists\<newline>'' then ErrorFrameExists
              else PilosaError (''Server error ('' @ fmt_d (StatusCode response) @ '') ''
                      @ Status response @ '': '' @ msg)),
         st\<lparr>client := (client st)\<lparr>cluster := c'\<rparr>,
            sent := sent st @ [protobuf_request method (GetNormalizedAddress T u @ path) data]\<rparr>)"
      unfolding CreateDatabase_def
      using h [of False] a by (intro createOrDeleteDatabase_exchange) simp
  next
    assume a: "method = ''POST'' \<and> path = ''/frame'' \<and> data = frameBody frame"
    show "CreateFrame T frame st =
      Inr (Some (if msg = ''database already exists\<newline>'' then ErrorDatabaseExists
              else if msg = ''frame already exists\<newline>'' then ErrorFrameExists
              else PilosaError (''Server error ('' @ fmt_d (StatusCode response) @ '') ''
                      @ Status response @ '': '' @ msg)),
         st\<lparr>client := (client st)\<lparr>cluster := c'\<rparr>,
            sent := sent st @ [protobuf_request method (GetNormalizedAddress T u @ path) data]\<rparr>)"
      unfolding CreateFrame_def
      using h [of False] a by (intro createOrDeleteFrame_exchange) simp
  qed
qed

theorem create_server_error_classification_witness:
  "CreateDatabase (answering 409 ''409 Conflict'' ''database already exists\<newline>'')
      \<lparr>Database.name = ''d'', options = \<lparr>columnLabel = ''col''\<rparr>\<rparr> (client_of ''http://h:1'') =
     Inr (Some ErrorDatabaseExists,
          \<lparr>client = \<lparr>cluster = \<lparr>hosts = [Some ''http://h:1''], nextIndex = 0\<rparr>\<rparr>,
           sent = [protobuf_request ''POST'' ''http://h:1/db''
                     (databaseBody \<lparr>Database.name = ''d'', options = \<lparr>columnLabel = ''col''\<rparr>\<rparr>)]\<rparr>) \<and>
   CreateDatabase (answering 500 ''500 Internal Server Error'' ''boom'')
      \<lparr>Database.name = ''d'', options = \<lparr>columnLabel = ''col''\<rparr>\<rparr> (client_of ''http://h:1'') =
     Inr (Some (PilosaError ''Server error (500) 500 Internal Server Error: boom''),
          \<lparr>client = \<lparr>cluster = \<lparr>hosts = [Some ''http://h:1''], nextIndex = 0\<rparr>\<rparr>,
           sent = [protobuf_request ''POST'' ''http://h:1/db''
                     (databaseBody \<lparr>Database.name = ''d'', options = \<lparr>columnLabel = ''col''\<rparr>\<rparr>)]\<rparr>)"
proof -
  let ?db = "\<lparr>Database.name = ''d'', options = \<lparr>columnLabel = ''col''\<rparr>\<rparr>"
  let ?T1 = "answering 409 ''409 Conflict'' ''database already exists\<newline>''"
  let ?T2 = "answering 500 ''500 Internal Server Error'' ''boom''"
  have d: "fmt_d 500 = ''500''" by code_simp
  have a: "CreateDatabase ?T1 ?db (client_of ''http://h:1'') =
     Inr (Some ErrorDatabaseExists,
          \<lparr>client = \<lparr>cluster = \<lparr>hosts = [Some ''http://h:1''], nextIndex = 0\<rparr>\<rparr>,
           sent = [protobuf_request ''POST'' ''http://h:1/db'' (databaseBody ?db)]\<rparr>)"
    using create_server_error_classification
      [of "client_of ''http://h:1''" "''http://h:1''" "\<lparr>hosts = [Some ''http://h:1''], nextIndex = 0\<rparr>"
          ?T1 "''POST''" "''/db''" "databaseBody ?db"
          "\<lparr>StatusCode = 409, Status = ''409 Conflict'', Body = Inr ''database already exists\<newline>''\<rparr>"
          "''database already exists\<newline>''" False ?db,
       OF GetHost_client_of]
    by (simp add: answering_def client_of_def Let_def)
  have b: "CreateDatabase ?T2 ?db (client_of ''http://h:1'') =
     Inr (Some (PilosaError ''Server error (500) 500 Internal Server Error: boom''),
          \<lparr>client = \<lparr>cluster = \<lparr>hosts = [Some ''http://h:1''], nextIndex = 0\<rparr>\<rparr>,
           sent = [protobuf_request ''POST'' ''http://h:1/db'' (databaseBody ?db)]\<rparr>)"
    using create_server_error_classification
      [of "client_of ''http://h:1''" "''http://h:1''" "\<lparr>hosts = [Some ''http://h:1''], nextIndex = 0\<rparr>"
          ?T2 "''POST''" "''/db''" "databaseBody ?db"
          "\<lparr>StatusCode = 500, Status = ''500 Internal Server Error'', Body = Inr ''boom''\<rparr>"
          "''boom''" False ?db,
       OF GetHost_client_of]
    by (simp add: answering_def client_of_def d Let_def)
  from a b show ?thesis by simp
qed

text \<open>
  The claim as first stated lets every body other than \<^verbatim>\<open>"database already exists\n"\<close>
  yield the generic error. A create call answered 409 with the body
  \<^verbatim>\<open>"frame already exists\n"\<close> returns \<^verbatim>\<open>ErrorFrameExists\<close> instead.
\<close>

theorem create_frame_body_not_generic_counterexample:
  "CreateFrame (answering 409 ''409 Conflict'' ''frame already exists\<newline>'')
      \<lparr>Frame.name = ''f'', database = \<lparr>Database.name = ''d'', options = \<lparr>columnLabel = ''col''\<rparr>\<rparr>,
       options = \<lparr>rowLabel = ''id''\<rparr>\<rparr> (client_of ''http://h:1'') =
     Inr (Some ErrorFrameExists,
          \<lparr>client = \<lparr>cluster = \<lparr>hosts = [Some ''http://h:1''], nextIndex = 0\<rparr>\<rparr>,
           sent = [protobuf_request ''POST'' ''http://h:1/frame''
                     (frameBody \<lparr>Frame.name = ''f'',
                        database = \<lparr>Database.name = ''d'', options = \<lparr>columnLabel = ''col''\<rparr>\<rparr>,
                        options = \<lparr>rowLabel = ''id''\<rparr>\<rparr>)]\<rparr>) \<and>
   ''frame already exists\<newline>'' \<noteq> ''database already exists\<newline>'' \<and>
   ErrorFrameExists \<noteq> PilosaError ''Server error (409) 409 Conflict: frame already exists\<newline>''"
  by (simp add: CreateFrame_answering)

text \<open>
  C4: (as amended) a response with a status outside \<open>[200, 300)\<close> and the body
  \<^verbatim>\<open>"frame already exists\n"\<close> is classified as \<^verbatim>\<open>ErrorFrameExists\<close>, an error other than
  \<^verbatim>\<open>ErrorDatabaseExists\<close>, whatever the method, the path and the payload of the request:
  on \<^verbatim>\<open>/frame\<close> for \<^verbatim>\<open>CreateFrame\<close>, and on \<^verbatim>\<open>/db\<close> for \<^verbatim>\<open>CreateDatabase\<close> alike. The
  classification reads the body text alone.
\<close>

theorem frame_exists_on_every_path:
  assumes "GetHost (cluster (client st)) = Inr (Some u, c')"
    and "NewRequest_error T method (GetNormalizedAddress T u @ path) = None"
    and "Do T (protobuf_request method (GetNormalizedAddress T u @ path) data) = Inr response"
    and "StatusCode response < 200 \<or> 300 \<le> StatusCode response"
    and "Response.Body response = Inr ''frame already exists\<newline>''"
  shows
    "(let st2 = st\<lparr>client := (client st)\<lparr>cluster := c'\<rparr>,
                   sent := sent st @ [protobuf_request method (GetNormalizedAddress T u @ path) data]\<rparr>
      in httpRequest T method path data needsResponse st = Inr (Inl ErrorFrameExists, st2) \<and>
         (method = ''POST'' \<and> path = ''/frame'' \<and> data = frameBody frame \<longrightarrow>
            CreateFrame T frame st = Inr (Some ErrorFrameExists, st2)) \<and>
         (method = ''POST'' \<and> path = ''/db'' \<and> data = databaseBody db \<longrightarrow>
            CreateDatabase T db st = Inr (Some ErrorFrameExists, st2))) \<and>
     ErrorFrameExists \<noteq> ErrorDatabaseExists"
proof -
  have h: "httpRequest T method path data n st =
      Inr (Inl ErrorFrameExists,
           st\<lparr>client := (client st)\<lparr>cluster := c'\<rparr>,
              sent := sent st @ [protobuf_request method (GetNormalizedAddress T u @ path) data]\<rparr>)" for n
    using httpRequest_non2xx [OF assms, of n] by simp
  have f: "CreateFrame T frame st =
      Inr (Some ErrorFrameExists,
           st\<lparr>client := (client st)\<lparr>cluster := c'\<rparr>,
              sent := sent st @ [protobuf_request method (GetNormalizedAddress T u @ path) data]\<rparr>)"
    if "method = ''POST'' \<and> path = ''/frame'' \<and> data = frameBody frame"
    unfolding CreateFrame_def using h [of False] that
    by (intro createOrDeleteFrame_exchange) simp
  have d: "CreateDatabase T db st =
      Inr (Some ErrorFrameExists,
           st\<lparr>client := (client st)\<lparr>cluster := c'\<rparr>,
              sent := sent st @ [protobuf_request method (GetNormalizedAddress T u @ path) data]\<rparr>)"
    if "method = ''POST'' \<and> path = ''/db'' \<and> data = databaseBody db"
    unfolding CreateDatabase_def using h [of False] that
    by (intro createOrDeleteDatabase_exchange) simp
  show ?thesis
    unfolding Let_def using h [of needsResponse] f d by simp
qed

theorem frame_exists_on_every_path_witness:
  "CreateFrame (answering 409 ''409 Conflict'' ''frame already exists\<newline>'')
      \<lparr>Frame.name = ''f'', database = \<lparr>Database.name = ''d'', options = \<lparr>columnLabel = ''col''\<rparr>\<rparr>,
       options = \<lparr>rowLabel = ''id''\<rparr>\<rparr> (client_of ''http://h:1'') =
     Inr (Some ErrorFrameExists,
          \<lparr>client = \<lparr>cluster = \<lparr>hosts = [Some ''http://h:1''], nextIndex = 0\<rparr>\<rparr>,
           sent = [protobuf_request ''POST'' ''http://h:1/frame''
                     (frameBody \<lparr>Frame.name = ''f'',
                        database = \<lparr>Database.name = ''d'', options = \<lparr>columnLabel = ''col''\<rparr>\<rparr>,
                        options = \<lparr>rowLabel = ''id''\<rparr>\<rparr>)]\<rparr>)"
proof -
  let ?fr = "\<lparr>Frame.name = ''f'', database = \<lparr>Database.name = ''d'', options = \<lparr>columnLabel = ''col''\<rparr>\<rparr>,
       options = \<lparr>rowLabel = ''id''\<rparr>\<rparr>"
  let ?T = "answering 409 ''409 Conflict'' ''frame already exists\<newline>''"
  show ?thesis
    using frame_exists_on_every_path
      [of "client_of ''http://h:1''" "''http://h:1''" "\<lparr>hosts = [Some ''http://h:1''], nextIndex = 0\<rparr>"
          ?T "''POST''" "''/frame''" "frameBody ?fr"
          "\<lparr>StatusCode = 409, Status = ''409 Conflict'', Body = Inr ''frame already exists\<newline>''\<rparr>"
          False ?fr,
       OF GetHost_client_of]
    by (simp add: answering_def client_of_def Let_def)
qed

text \<open>
  The claim as first stated has the mapping from body text to error tell the \<^verbatim>\<open>/db\<close>
  path from the \<^verbatim>\<open>/frame\<close> path. It does not: \<^verbatim>\<open>CreateDatabase\<close>, on \<^verbatim>\<open>/db\<close>, answered
  with the frame text returns \<^verbatim>\<open>ErrorFrameExists\<close>, and \<^verbatim>\<open>CreateFrame\<close>, on \<^verbatim>\<open>/frame\<close>,
  answered with the database text returns \<^verbatim>\<open>ErrorDatabaseExists\<close>.
\<close>

theorem database_path_frame_body_counterexample:
  "CreateDatabase (answering 409 ''409 Conflict'' ''frame already exists\<newline>'')
      \<lparr>Database.name = ''d'', options = \<lparr>columnLabel = ''col''\<rparr>\<rparr> (client_of ''http://h:1'') =
     Inr (Some ErrorFrameExists,
          \<lparr>client = \<lparr>cluster = \<lparr>hosts = [Some ''http://h:1''], nextIndex = 0\<rparr>\<rparr>,
           sent = [protobuf_request ''POST'' ''http://h:1/db''
                     (databaseBody \<lparr>Database.name = ''d'', options = \<lparr>columnLabel = ''col''\<rparr>\<rparr>)]\<rparr>) \<and>
   CreateFrame (answering 409 ''409 Conflict'' ''database already exists\<newline>'')
      \<lparr>Frame.name = ''f'', database = \<lparr>Database.name = ''d'', options = \<lparr>columnLabel = ''col''\<rparr>\<rparr>,
       options = \<lparr>rowLabel = ''id''\<rparr>\<rparr> (client_of ''http://h:1'') =
     Inr (Some ErrorDatabaseExists,
          \<lparr>client = \<lparr>cluster = \<lparr>hosts = [Some ''http://h:1''], nextIndex = 0\<rparr>\<rparr>,
           sent = [protobuf_request ''POST'' ''http://h:1/frame''
                     (frameBody \<lparr>Frame.name = ''f'',
                        database = \<lparr>Database.name = ''d'', options = \<lparr>columnLabel = ''col''\<rparr>\<rparr>,
                        options = \<lparr>rowLabel = ''id''\<rparr>\<rparr>)]\<rparr>)"
  by (simp add: CreateDatabase_answering CreateFrame_answering)

subsection \<open>Headers and bodies of the requests\<close>

text \<open>
  C5: (as amended) every request a call hands to the transport has both
  \<^verbatim>\<open>Content-Type\<close> and \<^verbatim>\<open>Accept\<close> set to \<^verbatim>\<open>application/x-protobuf\<close>, whatever the
  encoding of its body: the protobuf body of a query, the JSON body of an administrative
  call and the empty body of the schema fetch alike. A call only appends to the requests
  sent, and the requests it appends carry the payload of that call.
\<close>

theorem every_request_has_protobuf_headers:
  "(httpRequest T method path data needsResponse st = Inr (r, st') \<longrightarrow>
      sent st' = sent st @ outgoing st st' \<and>
      (\<forall>req\<in>set (outgoing st st'). protobuf_headers req \<and> Request.Body req = data)) \<and>
   (createOrDeleteDatabase T method db st = Inr (e, st') \<longrightarrow>
      sent st' = sent st @ outgoing st st' \<and>
      (\<forall>req\<in>set (outgoing st st'). protobuf_headers req \<and> Request.Body req = databaseBody db)) \<and>
   (createOrDeleteFrame T method frame st = Inr (e, st') \<longrightarrow>
      sent st' = sent st @ outgoing st st' \<and>
      (\<forall>req\<in>set (outgoing st st'). protobuf_headers req \<and> Request.Body req = frameBody frame)) \<and>
   (QueryWithOptions T K opts db query st = Inr (q, st') \<longrightarrow>
      sent st' = sent st @ outgoing st st' \<and>
      (\<forall>req\<in>set (outgoing st st'). protobuf_headers req \<and>
         Request.Body req = makeRequestData K (Database.name db) query opts)) \<and>
   (Schema T K st = Inr (s, st') \<longrightarrow>
      sent st' = sent st @ outgoing st st' \<and>
      (\<forall>req\<in>set (outgoing st st'). protobuf_headers req \<and> Request.Body req = []))"
proof (intro conjI impI)
  assume "httpRequest T method path data needsResponse st = Inr (r, st')"
  from httpRequest_outgoing [OF this] show "sent st' = sent st @ outgoing st st'"
    and "\<forall>req\<in>set (outgoing st st'). protobuf_headers req \<and> Request.Body req = data"
    by blast+
next
  assume "createOrDeleteDatabase T method db st = Inr (e, st')"
  then obtain r' where h: "httpRequest T method ''/db'' (databaseBody db) False st = Inr (r', st')"
    using createOrDeleteDatabase_via by blast
  from httpRequest_outgoing [OF h] show "sent st' = sent st @ outgoing st st'"
    and "\<forall>req\<in>set (outgoing st st'). protobuf_headers req \<and> Request.Body req = databaseBody db"
    by blast+
next
  assume "createOrDeleteFrame T method frame st = Inr (e, st')"
  then obtain r' where h: "httpRequest T method ''/frame'' (frameBody frame) False st = Inr (r', st')"
    using createOrDeleteFrame_via by blast
  from httpRequest_outgoing [OF h] show "sent st' = sent st @ outgoing st st'"
    and "\<forall>req\<in>set (outgoing st st'). protobuf_headers req \<and> Request.Body req = frameBody frame"
    by blast+
next
  assume "QueryWithOptions T K opts db query st = Inr (q, st')"
  then obtain r' where h: "httpRequest T ''POST'' ''/query''
      (makeRequestData K (Database.name db) query opts) True st = Inr (r', st')"
    using QueryWithOptions_via by blast
  from httpRequest_outgoing [OF h] show "sent st' = sent st @ outgoing st st'"
    and "\<forall>req\<in>set (outgoing st st'). protobuf_headers req \<and>
         Request.Body req = makeRequestData K (Database.name db) query opts"
    by blast+
next
  assume "Schema T K st = Inr (s, st')"
  then obtain r' where h: "httpRequest T ''GET'' ''/schema'' [] True st = Inr (r', st')"
    using Schema_via by blast
  from httpRequest_outgoing [OF h] show "sent st' = sent st @ outgoing st st'"
    and "\<forall>req\<in>set (outgoing st st'). protobuf_headers req \<and> Request.Body req = []"
    by blast+
qed

theorem every_request_has_protobuf_headers_witness:
  "createOrDeleteFrame (answering 200 ''200 OK'' '''') ''POST''
      \<lparr>Frame.name = ''f'', database = \<lparr>Database.name = ''d'', options = \<lparr>columnLabel = ''col''\<rparr>\<rparr>,
       options = \<lparr>rowLabel = ''id''\<rparr>\<rparr> (client_of ''http://h:1'') =
     Inr (None,
          \<lparr>client = \<lparr>cluster = \<lparr>hosts = [Some ''http://h:1''], nextIndex = 0\<rparr>\<rparr>,
           sent = [protobuf_request ''POST'' ''http://h:1/frame''
                     (frameBody \<lparr>Frame.name = ''f'',
                        database = \<lparr>Database.name = ''d'', options = \<lparr>columnLabel = ''col''\<rparr>\<rparr>,
                        options = \<lparr>rowLabel = ''id''\<rparr>\<rparr>)]\<rparr>) \<and>
   protobuf_headers (protobuf_request ''POST'' ''http://h:1/frame''
                     (frameBody \<lparr>Frame.name = ''f'',
                        database = \<lparr>Database.name = ''d'', options = \<lparr>columnLabel = ''col''\<rparr>\<rparr>,
                        options = \<lparr>rowLabel = ''id''\<rparr>\<rparr>))"
proof -
  let ?fr = "\<lparr>Frame.name = ''f'', database = \<lparr>Database.name = ''d'', options = \<lparr>columnLabel = ''col''\<rparr>\<rparr>,
       options = \<lparr>rowLabel = ''id''\<rparr>\<rparr>"
  let ?st' = "\<lparr>client = \<lparr>cluster = \<lparr>hosts = [Some ''http://h:1''], nextIndex = 0\<rparr>\<rparr>,
           sent = [protobuf_request ''POST'' ''http://h:1/frame'' (frameBody ?fr)]\<rparr>"
  have run: "createOrDeleteFrame (answering 200 ''200 OK'' '''') ''POST'' ?fr (client_of ''http://h:1'') =
      Inr (None, ?st')"
    using CreateFrame_answering [of 200 "''200 OK''" "''''" ?fr "''http://h:1''"]
    by (simp add: CreateFrame_def)
  have out: "outgoing (client_of ''http://h:1'') ?st' =
      [protobuf_request ''POST'' ''http://h:1/frame'' (frameBody ?fr)]"
    by (simp add: outgoing_def client_of_def)
  from every_request_has_protobuf_headers
    [of "answering 200 ''200 OK'' ''''" "''POST''" _ _ _ "client_of ''http://h:1''" _ ?st' _ None ?fr]
  have "\<forall>req\<in>set (outgoing (client_of ''http://h:1'') ?st').
          protobuf_headers req \<and> Request.Body req = frameBody ?fr"
    using run by blast
  then have "protobuf_headers (protobuf_request ''POST'' ''http://h:1/frame'' (frameBody ?fr))"
    by (simp add: out)
  with run show ?thesis by simp
qed

text \<open>
  The claim as first stated gives a JSON body JSON headers. The request of
  \<^verbatim>\<open>CreateFrame\<close> has a JSON body and the protobuf media type in both headers.
\<close>

theorem json_body_protobuf_headers_counterexample:
  \<open>CreateFrame (answering 200 ''200 OK'' '''')
      \<lparr>Frame.name = ''f'', database = \<lparr>Database.name = ''d'', options = \<lparr>columnLabel = ''col''\<rparr>\<rparr>,
       options = \<lparr>rowLabel = ''id''\<rparr>\<rparr> (client_of ''http://h:1'') =
     Inr (None,
          \<lparr>client = \<lparr>cluster = \<lparr>hosts = [Some ''http://h:1''], nextIndex = 0\<rparr>\<rparr>,
           sent = [\<lparr>Method = ''POST'', URL = ''http://h:1/frame'',
                    Header = [''Content-Type'' \<mapsto> ''application/x-protobuf'',
                              ''Accept'' \<mapsto> ''application/x-protobuf''],
                    Body = ''{"db": "d", "frame": "f", "options": {"rowLabel": "id"}}''\<rparr>]\<rparr>)\<close>
  by (simp add: CreateFrame_answering protobuf_request_def frameBody_def)

text \<open>
  C7: when the cluster yields the address \<open>u\<close> and \<^verbatim>\<open>http.NewRequest\<close> accepts the
  method and the URL, \<^verbatim>\<open>createOrDeleteDatabase\<close> hands the transport exactly one request:
  the given method, the normalized address of \<open>u\<close> followed by \<^verbatim>\<open>/db\<close>, and the body
  \<^verbatim>\<open>{"db": "<name>", "options": {"columnLabel": "<label>"}}\<close> with the name and the column
  label of the database; \<^verbatim>\<open>createOrDeleteFrame\<close> likewise with \<^verbatim>\<open>/frame\<close> and the body
  \<^verbatim>\<open>{"db": "<name>", "frame": "<name>", "options": {"rowLabel": "<label>"}}\<close>. The create
  calls use the method \<^verbatim>\<open>POST\<close> and the delete calls \<^verbatim>\<open>DELETE\<close>.
\<close>

theorem admin_requests_wire_exact:
  assumes "GetHost (cluster (client st)) = Inr (Some u, c')"
  shows
   \<open>(NewRequest_error T method (GetNormalizedAddress T u @ ''/db'') = None \<longrightarrow>
      (\<exists>e st'. createOrDeleteDatabase T method db st = Inr (e, st') \<and>
         sent st' = sent st @
           [\<lparr>Method = method, URL = GetNormalizedAddress T u @ ''/db'',
             Header = [''Content-Type'' \<mapsto> ''application/x-protobuf'',
                       ''Accept'' \<mapsto> ''application/x-protobuf''],
             Body = ''{"db": "'' @ Database.name db @ ''", "options": {"columnLabel": "''
                      @ columnLabel (Database.options db) @ ''"}}''\<rparr>])) \<and>
    (NewRequest_error T method (GetNormalizedAddress T u @ ''/frame'') = None \<longrightarrow>
      (\<exists>e st'. createOrDeleteFrame T method frame st = Inr (e, st') \<and>
         sent st' = sent st @
           [\<lparr>Method = method, URL = GetNormalizedAddress T u @ ''/frame'',
             Header = [''Content-Type'' \<mapsto> ''application/x-protobuf'',
                       ''Accept'' \<mapsto> ''application/x-protobuf''],
             Body = ''{"db": "'' @ Database.name (database frame) @ ''", "frame": "''
                      @ Frame.name frame @ ''", "options": {"rowLabel": "''
                      @ rowLabel (Frame.options frame) @ ''"}}''\<rparr>])) \<and>
    CreateDatabase T db st = createOrDeleteDatabase T ''POST'' db st \<and>
    DeleteDatabase T db st = createOrDeleteDatabase T ''DELETE'' db st \<and>
    CreateFrame T frame st = createOrDeleteFrame T ''POST'' frame st \<and>
    DeleteFrame T frame st = createOrDeleteFrame T ''DELETE'' frame st\<close>
proof (intro conjI impI)
  assume n: "NewRequest_error T method (GetNormalizedAddress T u @ ''/db'') = None"
  from httpRequest_sends [OF assms n, of "databaseBody db" False]
  obtain r st' where h: "httpRequest T method ''/db'' (databaseBody db) False st = Inr (r, st')"
    and s: "sent st' = sent st @
              [protobuf_request method (GetNormalizedAddress T u @ ''/db'') (databaseBody db)]"
    by blast
  from h have "\<exists>e. createOrDeleteDatabase T method db st = Inr (e, st')"
    by (cases r) (simp_all add: createOrDeleteDatabase_def)
  with s show \<open>\<exists>e st'. createOrDeleteDatabase T method db st = Inr (e, st') \<and>
         sent st' = sent st @
           [\<lparr>Method = method, URL = GetNormalizedAddress T u @ ''/db'',
             Header = [''Content-Type'' \<mapsto> ''application/x-protobuf'',
                       ''Accept'' \<mapsto> ''application/x-protobuf''],
             Body = ''{"db": "'' @ Database.name db @ ''", "options": {"columnLabel": "''
                      @ columnLabel (Database.options db) @ ''"}}''\<rparr>]\<close>
    unfolding protobuf_request_def databaseBody_def by blast
next
  assume n: "NewRequest_error T method (GetNormalizedAddress T u @ ''/frame'') = None"
  from httpRequest_sends [OF assms n, of "frameBody frame" False]
  obtain r st' where h: "httpRequest T method ''/frame'' (frameBody frame) False st = Inr (r, st')"
    and s: "sent st' = sent st @
              [protobuf_request method (GetNormalizedAddress T u @ ''/frame'') (frameBody frame)]"
    by blast
  from h have "\<exists>e. createOrDeleteFrame T method frame st = Inr (e, st')"
    by (cases r) (simp_all add: createOrDeleteFrame_def)
  with s show \<open>\<exists>e st'. createOrDeleteFrame T method frame st = Inr (e, st') \<and>
         sent st' = sent st @
           [\<lparr>Method = method, URL = GetNormalizedAddress T u @ ''/frame'',
             Header = [''Content-Type'' \<mapsto> ''application/x-protobuf'',
                       ''Accept'' \<mapsto> ''application/x-protobuf''],
             Body = ''{"db": "'' @ Database.name (database frame) @ ''", "frame": "''
                      @ Frame.name frame @ ''", "options": {"rowLabel": "''
                      @ rowLabel (Frame.options frame) @ ''"}}''\<rparr>]\<close>
    unfolding protobuf_request_def frameBody_def by blast
qed (simp_all add: CreateDatabase_def DeleteDatabase_def CreateFrame_def DeleteFrame_def)

theorem admin_requests_wire_exact_witness:
  \<open>(\<exists>e st'. createOrDeleteDatabase (answering 200 ''200 OK'' '''') ''DELETE''
               \<lparr>Database.name = ''d'', options = \<lparr>columnLabel = ''col''\<rparr>\<rparr>
               (client_of ''http://h:1'') = Inr (e, st') \<and>
      sent st' =
        [\<lparr>Method = ''DELETE'', URL = ''http://h:1/db'',
          Header = [''Content-Type'' \<mapsto> ''application/x-protobuf'',
                    ''Accept'' \<mapsto> ''application/x-protobuf''],
          Body = ''{"db": "d", "options": {"columnLabel": "col"}}''\<rparr>]) \<and>
   (\<exists>e st'. createOrDeleteFrame (answering 200 ''200 OK'' '''') ''POST''
               \<lparr>Frame.name = ''f'',
                database = \<lparr>Database.name = ''d'', options = \<lparr>columnLabel = ''col''\<rparr>\<rparr>,
                options = \<lparr>rowLabel = ''id''\<rparr>\<rparr>
               (client_of ''http://h:1'') = Inr (e, st') \<and>
      sent st' =
        [\<lparr>Method = ''POST'', URL = ''http://h:1/frame'',
          Header = [''Content-Type'' \<mapsto> ''application/x-protobuf'',
                    ''Accept'' \<mapsto> ''application/x-protobuf''],
          Body = ''{"db": "d", "frame": "f", "options": {"rowLabel": "id"}}''\<rparr>])\<close>
proof -
  let ?T = "answering 200 ''200 OK'' ''''"
  have n: "NewRequest_error ?T m url = None" for m url
    by (simp add: answering_def)
  have g: "GetNormalizedAddress ?T ''http://h:1'' = ''http://h:1''"
    by (simp add: answering_def)
  have s: "sent (client_of ''http://h:1'') = []"
    by (simp add: client_of_def)
  note t1 = admin_requests_wire_exact [OF GetHost_client_of [of "''http://h:1''"], of ?T "''DELETE''"
      "\<lparr>Database.name = ''d'', options = \<lparr>columnLabel = ''col''\<rparr>\<rparr>"]
  note t2 = admin_requests_wire_exact [OF GetHost_client_of [of "''http://h:1''"], of ?T "''POST''" _
      "\<lparr>Frame.name = ''f'',
                database = \<lparr>Database.name = ''d'', options = \<lparr>columnLabel = ''col''\<rparr>\<rparr>,
                options = \<lparr>rowLabel = ''id''\<rparr>\<rparr>"]
  from t1 have a: \<open>\<exists>e st'. createOrDeleteDatabase ?T ''DELETE''
               \<lparr>Database.name = ''d'', options = \<lparr>columnLabel = ''col''\<rparr>\<rparr>
               (client_of ''http://h:1'') = Inr (e, st') \<and>
      sent st' =
        [\<lparr>Method = ''DELETE'', URL = ''http://h:1/db'',
          Header = [''Content-Type'' \<mapsto> ''application/x-protobuf'',
                    ''Accept'' \<mapsto> ''application/x-protobuf''],
          Body = ''{"db": "d", "options": {"columnLabel": "col"}}''\<rparr>]\<close>
    by (simp add: n g s)
  from t2 have b: \<open>\<exists>e st'. createOrDeleteFrame ?T ''POST''
               \<lparr>Frame.name = ''f'',
                database = \<lparr>Database.name = ''d'', options = \<lparr>columnLabel = ''col''\<rparr>\<rparr>,
                options = \<lparr>rowLabel = ''id''\<rparr>\<rparr>
               (client_of ''http://h:1'') = Inr (e, st') \<and>
      sent st' =
        [\<lparr>Method = ''POST'', URL = ''http://h:1/frame'',
          Header = [''Content-Type'' \<mapsto> ''application/x-protobuf'',
                    ''Accept'' \<mapsto> ''application/x-protobuf''],
          Body = ''{"db": "d", "frame": "f", "options": {"rowLabel": "id"}}''\<rparr>]\<close>
    by (simp add: n g s)
  from a b show ?thesis by (rule conjI)
qed

subsection \<open>The empty cluster\<close>

text \<open>
  C6: with no host in the cluster every operation (query, schema fetch, create,
  delete, ensure) returns \<^verbatim>\<open>ErrorEmptyCluster\<close> and leaves the state as it was, so nothing
  is handed to the transport. In any state, a call of \<^verbatim>\<open>httpRequest\<close> that returns leaves
  the cluster as one call of \<^verbatim>\<open>GetHost\<close> leaves it; if that call gave \<^verbatim>\<open>nil\<close> the result is
  \<^verbatim>\<open>ErrorEmptyCluster\<close> with nothing sent, and otherwise at most one request is sent, to
  the address selected.
\<close>

theorem empty_cluster_fails_before_any_exchange:
  "(hosts (cluster (client st)) = [] \<longrightarrow>
      httpRequest T method path data needsResponse st = Inr (Inl ErrorEmptyCluster, st) \<and>
      QueryWithOptions T K opts db query st = Inr (Inl ErrorEmptyCluster, st) \<and>
      Query_default T K db query st = Inr (Inl ErrorEmptyCluster, st) \<and>
      Schema T K st = Inr (Inl ErrorEmptyCluster, st) \<and>
      CreateDatabase T db st = Inr (Some ErrorEmptyCluster, st) \<and>
      DeleteDatabase T db st = Inr (Some ErrorEmptyCluster, st) \<and>
      CreateFrame T frame st = Inr (Some ErrorEmptyCluster, st) \<and>
      DeleteFrame T frame st = Inr (Some ErrorEmptyCluster, st) \<and>
      EnsureDatabaseExists T db st = Inr (Some ErrorEmptyCluster, st) \<and>
      EnsureFrameExists T frame st = Inr (Some ErrorEmptyCluster, st)) \<and>
   (httpRequest T method path data needsResponse st = Inr (r, st') \<longrightarrow>
      (\<exists>addr. GetHost (cluster (client st)) = Inr (addr, cluster (client st')) \<and>
         (case addr of
            None \<Rightarrow> r = Inl ErrorEmptyCluster \<and> sent st' = sent st
          | Some u \<Rightarrow>
              sent st' = sent st \<or>
              sent st' = sent st @ [protobuf_request method (GetNormalizedAddress T u @ path) data])))"
proof (intro conjI impI)
  assume e: "hosts (cluster (client st)) = []"
  note h = httpRequest_empty [OF e]
  show "httpRequest T method path data needsResponse st = Inr (Inl ErrorEmptyCluster, st)"
    by (rule h)
  show "QueryWithOptions T K opts db query st = Inr (Inl ErrorEmptyCluster, st)"
    by (simp add: QueryWithOptions_def h)
  show "Query_default T K db query st = Inr (Inl ErrorEmptyCluster, st)"
    by (simp add: Query_default_def QueryWithOptions_def h)
  show "Schema T K st = Inr (Inl ErrorEmptyCluster, st)"
    by (simp add: Schema_def h)
  show cd: "CreateDatabase T db st = Inr (Some ErrorEmptyCluster, st)"
    by (simp add: CreateDatabase_def createOrDeleteDatabase_def h)
  show "DeleteDatabase T db st = Inr (Some ErrorEmptyCluster, st)"
    by (simp add: DeleteDatabase_def createOrDeleteDatabase_def h)
  show cf: "CreateFrame T frame st = Inr (Some ErrorEmptyCluster, st)"
    by (simp add: CreateFrame_def createOrDeleteFrame_def h)
  show "DeleteFrame T frame st = Inr (Some ErrorEmptyCluster, st)"
    by (simp add: DeleteFrame_def createOrDeleteFrame_def h)
  show "EnsureDatabaseExists T db st = Inr (Some ErrorEmptyCluster, st)"
    by (simp add: EnsureDatabaseExists_def cd)
  show "EnsureFrameExists T frame st = Inr (Some ErrorEmptyCluster, st)"
    by (simp add: EnsureFrameExists_def cf)
next
  assume "httpRequest T method path data needsResponse st = Inr (r, st')"
  then show "\<exists>addr. GetHost (cluster (client st)) = Inr (addr, cluster (client st')) \<and>
         (case addr of
            None \<Rightarrow> r = Inl ErrorEmptyCluster \<and> sent st' = sent st
          | Some u \<Rightarrow>
              sent st' = sent st \<or>
              sent st' = sent st @ [protobuf_request method (GetNormalizedAddress T u @ path) data])"
    by (rule httpRequest_selects_once)
qed

theorem empty_cluster_fails_before_any_exchange_witness:
  "Query_default (answering 200 ''200 OK'' ''x'') text_codec
      \<lparr>Database.name = ''d'', options = \<lparr>columnLabel = ''col''\<rparr>\<rparr> ''Bitmap(id=1)''
      \<lparr>client = \<lparr>cluster = NewCluster\<rparr>, sent = []\<rparr> =
     Inr (Inl ErrorEmptyCluster, \<lparr>client = \<lparr>cluster = NewCluster\<rparr>, sent = []\<rparr>) \<and>
   Schema (answering 200 ''200 OK'' ''x'') text_codec \<lparr>client = \<lparr>cluster = NewCluster\<rparr>, sent = []\<rparr> =
     Inr (Inl ErrorEmptyCluster, \<lparr>client = \<lparr>cluster = NewCluster\<rparr>, sent = []\<rparr>) \<and>
   CreateDatabase (answering 200 ''200 OK'' ''x'')
      \<lparr>Database.name = ''d'', options = \<lparr>columnLabel = ''col''\<rparr>\<rparr>
      \<lparr>client = \<lparr>cluster = NewCluster\<rparr>, sent = []\<rparr> =
     Inr (Some ErrorEmptyCluster, \<lparr>client = \<lparr>cluster = NewCluster\<rparr>, sent = []\<rparr>) \<and>
   (\<exists>addr. GetHost (cluster (client (client_of ''http://h:1''))) =
             Inr (addr, \<lparr>hosts = [Some ''http://h:1''], nextIndex = 0\<rparr>))"
proof -
  let ?st = "\<lparr>client = \<lparr>cluster = (NewCluster :: string Cluster)\<rparr>, sent = []\<rparr>"
  let ?db = "\<lparr>Database.name = ''d'', options = \<lparr>columnLabel = ''col''\<rparr>\<rparr>"
  let ?T = "answering 200 ''200 OK'' ''x''"
  let ?st' = "\<lparr>client = \<lparr>cluster = \<lparr>hosts = [Some ''http://h:1''], nextIndex = 0\<rparr>\<rparr>,
               sent = [protobuf_request ''GET'' ''http://h:1/schema'' []]\<rparr>"
  have e: "hosts (cluster (client ?st)) = []" by (simp add: NewCluster_def)
  have run: "httpRequest ?T ''GET'' ''/schema'' [] True (client_of ''http://h:1'') = Inr (Inr ''x'', ?st')"
    by (simp add: httpRequest_def GetHost_client_of answering_def Let_def, simp add: client_of_def)
  note t1 = empty_cluster_fails_before_any_exchange
    [of ?st ?T _ _ _ _ text_codec _ ?db "''Bitmap(id=1)''"]
  note t2 = empty_cluster_fails_before_any_exchange
    [of "client_of ''http://h:1''" ?T "''GET''" "''/schema''" "[]" True _ _ _ _ _ "Inr ''x''" ?st']
  from t1 e have
    "Query_default ?T text_codec ?db ''Bitmap(id=1)'' ?st = Inr (Inl ErrorEmptyCluster, ?st)"
    "Schema ?T text_codec ?st = Inr (Inl ErrorEmptyCluster, ?st)"
    "CreateDatabase ?T ?db ?st = Inr (Some ErrorEmptyCluster, ?st)"
    by blast+
  moreover from t2 run have
    "\<exists>addr. GetHost (cluster (client (client_of ''http://h:1''))) = Inr (addr, cluster (client ?st'))"
    by blast
  ultimately show ?thesis by simp
qed

subsection \<open>Ensuring existence\<close>

text \<open>
  C9: \<^verbatim>\<open>EnsureDatabaseExists\<close> ends in the state \<^verbatim>\<open>CreateDatabase\<close> ends in; it returns
  no error exactly when \<^verbatim>\<open>CreateDatabase\<close> returns none or returns \<^verbatim>\<open>ErrorDatabaseExists\<close>,
  and returns every other error of \<^verbatim>\<open>CreateDatabase\<close> as it is, \<^verbatim>\<open>ErrorFrameExists\<close>
  included. \<^verbatim>\<open>EnsureFrameExists\<close> does the same with \<^verbatim>\<open>CreateFrame\<close> and
  \<^verbatim>\<open>ErrorFrameExists\<close>.
\<close>

theorem ensure_absorbs_own_already_exists:
  "(CreateDatabase T db st = Inr (err, st') \<longrightarrow>
      (EnsureDatabaseExists T db st = Inr (None, st') \<longleftrightarrow>
         err = None \<or> err = Some ErrorDatabaseExists) \<and>
      (err \<noteq> Some ErrorDatabaseExists \<longrightarrow> EnsureDatabaseExists T db st = Inr (err, st'))) \<and>
   (CreateDatabase T db st = Inl p \<longrightarrow> EnsureDatabaseExists T db st = Inl p) \<and>
   (CreateFrame T frame st = Inr (err, st') \<longrightarrow>
      (EnsureFrameExists T frame st = Inr (None, st') \<longleftrightarrow>
         err = None \<or> err = Some ErrorFrameExists) \<and>
      (err \<noteq> Some ErrorFrameExists \<longrightarrow> EnsureFrameExists T frame st = Inr (err, st'))) \<and>
   (CreateFrame T frame st = Inl p \<longrightarrow> EnsureFrameExists T frame st = Inl p)"
  by (simp add: EnsureDatabaseExists_def EnsureFrameExists_def)

theorem ensure_absorbs_own_already_exists_witness:
  "EnsureDatabaseExists (answering 409 ''409 Conflict'' ''database already exists\<newline>'')
      \<lparr>Database.name = ''d'', options = \<lparr>columnLabel = ''col''\<rparr>\<rparr> (client_of ''http://h:1'') =
     Inr (None,
          \<lparr>client = \<lparr>cluster = \<lparr>hosts = [Some ''http://h:1''], nextIndex = 0\<rparr>\<rparr>,
           sent = [protobuf_request ''POST'' ''http://h:1/db''
                     (databaseBody \<lparr>Database.name = ''d'', options = \<lparr>columnLabel = ''col''\<rparr>\<rparr>)]\<rparr>) \<and>
   EnsureDatabaseExists (answering 409 ''409 Conflict'' ''frame already exists\<newline>'')
      \<lparr>Database.name = ''d'', options = \<lparr>columnLabel = ''col''\<rparr>\<rparr> (client_of ''http://h:1'') =
     Inr (Some ErrorFrameExists,
          \<lparr>client = \<lparr>cluster = \<lparr>hosts = [Some ''http://h:1''], nextIndex = 0\<rparr>\<rparr>,
           sent = [protobuf_request ''POST'' ''http://h:1/db''
                     (databaseBody \<lparr>Database.name = ''d'', options = \<lparr>columnLabel = ''col''\<rparr>\<rparr>)]\<rparr>) \<and>
   EnsureFrameExists (answering 409 ''409 Conflict'' ''frame already exists\<newline>'')
      \<lparr>Frame.name = ''f'', database = \<lparr>Database.name = ''d'', options = \<lparr>columnLabel = ''col''\<rparr>\<rparr>,
       options = \<lparr>rowLabel = ''id''\<rparr>\<rparr> (client_of ''http://h:1'') =
     Inr (None,
          \<lparr>client = \<lparr>cluster = \<lparr>hosts = [Some ''http://h:1''], nextIndex = 0\<rparr>\<rparr>,
           sent = [protobuf_request ''POST'' ''http://h:1/frame''
                     (frameBody \<lparr>Frame.name = ''f'',
                        database = \<lparr>Database.name = ''d'', options = \<lparr>columnLabel = ''col''\<rparr>\<rparr>,
                        options = \<lparr>rowLabel = ''id''\<rparr>\<rparr>)]\<rparr>)"
proof -
  let ?db = "\<lparr>Database.name = ''d'', options = \<lparr>columnLabel = ''col''\<rparr>\<rparr>"
  let ?fr = "\<lparr>Frame.name = ''f'', database = ?db, options = \<lparr>rowLabel = ''id''\<rparr>\<rparr>"
  let ?h = "''http://h:1''"
  let ?c = "\<lparr>cluster = \<lparr>hosts = [Some ?h], nextIndex = 0\<rparr>\<rparr>"
  let ?sd = "\<lparr>client = ?c, sent = [protobuf_request ''POST'' ''http://h:1/db'' (databaseBody ?db)]\<rparr>"
  let ?sf = "\<lparr>client = ?c, sent = [protobuf_request ''POST'' ''http://h:1/frame'' (frameBody ?fr)]\<rparr>"
  let ?Td = "answering 409 ''409 Conflict'' ''database already exists\<newline>''"
  let ?Tf = "answering 409 ''409 Conflict'' ''frame already exists\<newline>''"
  have c1: "CreateDatabase ?Td ?db (client_of ?h) = Inr (Some ErrorDatabaseExists, ?sd)"
    by (simp add: CreateDatabase_answering)
  have c2: "CreateDatabase ?Tf ?db (client_of ?h) = Inr (Some ErrorFrameExists, ?sd)"
    by (simp add: CreateDatabase_answering)
  have c3: "CreateFrame ?Tf ?fr (client_of ?h) = Inr (Some ErrorFrameExists, ?sf)"
    by (simp add: CreateFrame_answering)
  from ensure_absorbs_own_already_exists
    [where T = ?Td and db = ?db and st = "client_of ?h" and err = "Some ErrorDatabaseExists" and st' = ?sd]
    c1
  have a: "EnsureDatabaseExists ?Td ?db (client_of ?h) = Inr (None, ?sd)" by blast
  from ensure_absorbs_own_already_exists
    [where T = ?Tf and db = ?db and st = "client_of ?h" and err = "Some ErrorFrameExists" and st' = ?sd]
    c2
  have b: "EnsureDatabaseExists ?Tf ?db (client_of ?h) = Inr (Some ErrorFrameExists, ?sd)" by simp
  from ensure_absorbs_own_already_exists
    [where T = ?Tf and frame = ?fr and st = "client_of ?h" and err = "Some ErrorFrameExists" and st' = ?sf]
    c3
  have c: "EnsureFrameExists ?Tf ?fr (client_of ?h) = Inr (None, ?sf)" by blast
  from a b c show ?thesis by simp
qed

end
